theory Spec2Isabelle
  imports Main
begin

section \<open>The device API client (lib/utils/device/api.ts)\<close>

subsection \<open>Values, errors, requests and responses\<close>

text \<open>
  A JavaScript value as it reaches this code: a response body, a field of a parsed JSON
  body, the target state handed to \<open>setTargetState\<close>, or the message given to an error
  constructor. An object is the list of its own enumerable properties in insertion order;
  a property read takes the first entry with the key. Numbers are only carried along by
  this code, never computed with, and are kept as integers.
\<close>

datatype jsval =
    JUndefined
  | JNull
  | JBool bool
  | JNum int
  | JStr string
  | JArr "jsval list"
  | JObj "(string \<times> jsval) list"

text \<open>
  What a promise of this file can reject with. The three API error classes come from
  \<open>./errors\<close> and are built from one argument, the message. \<open>TypeError\<close> is what the
  runtime throws when a property of \<open>undefined\<close> or \<open>null\<close> is read. \<open>RequestError\<close>
  stands for a rejection of the SDK's own request functions (a failure of the transport).
\<close>

datatype error =
    BadRequestDeviceAPIError jsval
  | ServiceUnavailableAPIError jsval
  | DeviceAPIError jsval
  | TypeError
  | RequestError string

text \<open>
  The options object given to \<open>sdk.request.send\<close>. \<open>http_method\<close> is the field
  \<open>method\<close>, \<open>opts_body\<close> the field \<open>body\<close> (\<open>JUndefined\<close> when the literal has
  none), \<open>json\<close> is false when the literal does not set it, \<open>qs\<close> is the query
  string object.
\<close>

record request_opts =
  http_method :: string
  url :: "string option"
  json :: bool
  opts_body :: jsval
  qs :: "(string \<times> string) list"

record response =
  statusCode :: int
  body :: jsval

text \<open>
  The SDK of \<open>getBalenaSdk()\<close> is outside this file. \<open>send k opts\<close> is how the call of
  \<open>sdk.request.send(opts)\<close> settles when \<open>k\<close> calls were made before it during the same
  operation: it rejects (\<open>Inl\<close>) or resolves with a response. \<open>stream u\<close> is how
  \<open>sdk.request.stream({ url: u })\<close> settles.
\<close>

record 's sdk =
  send :: "nat \<Rightarrow> request_opts \<Rightarrow> error + response"
  stream :: "string \<Rightarrow> error + 's"

subsection \<open>Property reads and promise chaining\<close>

text \<open>
  \<open>read_prop v k\<close> is the expression \<open>v.k\<close> for the keys this file reads (\<open>message\<close>,
  \<open>state\<close>, \<open>info\<close>, \<open>status\<close>, \<open>containerId\<close>, \<open>version\<close>), none of which is a
  property of the prototypes of strings, numbers, booleans or arrays: reading it from
  \<open>undefined\<close> or \<open>null\<close> throws, from an object it gives the property or \<open>undefined\<close>,
  from anything else \<open>undefined\<close>.
\<close>

fun read_prop :: "jsval \<Rightarrow> string \<Rightarrow> error + jsval" where
  "read_prop JUndefined k = Inl TypeError"
| "read_prop JNull k = Inl TypeError"
| "read_prop (JObj kvs) k = Inr (case map_of kvs k of None \<Rightarrow> JUndefined | Some v \<Rightarrow> v)"
| "read_prop v k = Inr JUndefined"

fun is_string :: "jsval \<Rightarrow> bool" where
  "is_string (JStr s) = True"
| "is_string v = False"

text \<open>\<open>p.then(f)\<close>, and the rest of an async function after an \<open>await\<close>.\<close>

fun and_then :: "error + 'a \<Rightarrow> ('a \<Rightarrow> error + 'b) \<Rightarrow> error + 'b" where
  "and_then (Inl e) f = Inl e"
| "and_then (Inr v) f = f v"

subsection \<open>Effects\<close>

text \<open>
  What an operation does besides settling, in the order it does it: the options of every
  \<open>sdk.request.send\<close>, the URL of every \<open>sdk.request.stream\<close>, the lines given to
  \<open>logger.logDebug\<close>, and what the retry helper does between attempts (the delays it
  waits, in milliseconds, and the labels it logs). An asynchronous function is a function
  from this record to how its promise settles and the record afterwards.
\<close>

record io =
  requests :: "request_opts list"
  streams :: "string list"
  debug :: "string list"
  slept :: "nat list"
  retry_log :: "string list"

type_synonym 'a async = "io \<Rightarrow> (error + 'a) \<times> io"

definition io0 :: io where
  "io0 = \<lparr>requests = [], streams = [], debug = [], slept = [], retry_log = []\<rparr>"

text \<open>\<open>p.then(f)\<close> for a callback without effects of its own.\<close>

definition then_do :: "'a async \<Rightarrow> ('a \<Rightarrow> error + 'b) \<Rightarrow> 'b async" where
  "then_do p f s = (case p s of (r, s') \<Rightarrow> (and_then r f, s'))"

subsection \<open>The dispatcher: \<open>doRequest\<close> inside \<open>sendRequest\<close>\<close>

text \<open>
  \<open>bodyError\<close> is computed before the \<open>switch\<close>, for every status code:
  \<^verbatim>\<open>typeof response.body === 'string' ? response.body : response.body.message\<close>
\<close>

definition bodyError :: "response \<Rightarrow> error + jsval" where
  "bodyError response =
     (if is_string (body response) then Inr (body response)
      else read_prop (body response) ''message'')"

text \<open>
  \<open>classify\<close> is \<open>doRequest\<close> from the line after the \<open>await\<close>. The \<open>default\<close> branch
  of the \<open>switch\<close> builds a \<open>DeviceAPIError\<close> and drops it (there is no \<open>throw\<close>), so
  the function runs off its end and resolves with \<open>undefined\<close>.
\<close>

definition classify :: "response \<Rightarrow> error + jsval" where
  "classify response =
     and_then (bodyError response) (\<lambda>message.
       if statusCode response = 200 then Inr (body response)
       else if statusCode response = 400 then Inl (BadRequestDeviceAPIError message)
       else if statusCode response = 503 then Inl (ServiceUnavailableAPIError message)
       else Inr JUndefined)"

definition doRequest :: "('s, 'z) sdk_scheme \<Rightarrow> request_opts \<Rightarrow> jsval async" where
  "doRequest sdk opts s =
     (and_then (send sdk (length (requests s)) opts) classify,
      s\<lparr>requests := requests s @ [opts]\<rparr>)"

subsection \<open>The retry helper\<close>

text \<open>The object literal \<open>sendRequest\<close> gives to \<open>retry\<close>.\<close>

record retry_opts =
  func :: "jsval async"
  initialDelayMs :: nat
  maxAttempts :: nat
  label :: string

text \<open>
  Modelled from the spec: \<open>retry\<close> of \<open>lib/utils/helpers\<close>, which \<open>api.ts\<close> imports
  and which is not among the sources. The spec (Retry Controller) says: the operation is
  invoked up to \<open>maxAttempts\<close> times; an attempt that succeeds returns its value at once;
  an attempt that fails with BadRequest is not retried and is the final error; an attempt
  that fails with ServiceUnavailable or a generic or transport error is retried, after
  waiting \<open>initialDelayMs\<close> before the first retry and logging the label on each retry;
  after \<open>maxAttempts\<close> failed attempts the last error is returned as it is. The spec
  leaves the growth of the delay open: it is the parameter \<open>grow\<close>. It does not say
  what a bound of zero attempts means: here the first attempt is always made.
  Cancellation is not modelled.
\<close>

fun retryable :: "error \<Rightarrow> bool" where
  "retryable (BadRequestDeviceAPIError m) = False"
| "retryable e = True"

fun retry_from :: "(nat \<Rightarrow> nat) \<Rightarrow> retry_opts \<Rightarrow> nat \<Rightarrow> nat \<Rightarrow> jsval async" where
  "retry_from grow cfg delay 0 s = func cfg s"
| "retry_from grow cfg delay (Suc left) s =
     (case func cfg s of
        (Inr v, s') \<Rightarrow> (Inr v, s')
      | (Inl e, s') \<Rightarrow>
          if retryable e
          then retry_from grow cfg (grow delay) left
                 (s'\<lparr>slept := slept s' @ [delay], retry_log := retry_log s' @ [label cfg]\<rparr>)
          else (Inl e, s'))"

definition runWithRetry :: "(nat \<Rightarrow> nat) \<Rightarrow> retry_opts \<Rightarrow> jsval async" where
  "runWithRetry grow cfg = retry_from grow cfg (initialDelayMs cfg) (maxAttempts cfg - 1)"

subsection \<open>\<open>DeviceAPI\<close>\<close>

datatype endpoint_action =
    SetTargetState | GetTargetState | GetDeviceInformation | Logs | Ping | Version
  | Status | ContainerId

fun deviceEndpoints :: "endpoint_action \<Rightarrow> string" where
  "deviceEndpoints SetTargetState = ''v2/local/target-state''"
| "deviceEndpoints GetTargetState = ''v2/local/target-state''"
| "deviceEndpoints GetDeviceInformation = ''v2/local/device-info''"
| "deviceEndpoints Logs = ''v2/local/logs''"
| "deviceEndpoints Ping = ''ping''"
| "deviceEndpoints Version = ''v2/version''"
| "deviceEndpoints Status = ''v2/state/status''"
| "deviceEndpoints ContainerId = ''v2/containerId''"

text \<open>
  The object: its one data field. The logger field is an object of another module; what
  is said to it is in \<open>debug\<close>.
\<close>

record DeviceAPI =
  deviceAddress :: string

definition getUrlForAction :: "DeviceAPI \<Rightarrow> endpoint_action \<Rightarrow> string" where
  "getUrlForAction this action = deviceAddress this @ deviceEndpoints action"

text \<open>
  \<open>sendRequest\<close>. \<open>retry\<close> is the helper imported from \<open>../helpers\<close>, \<open>sdk\<close> what
  \<open>getBalenaSdk()\<close> returns, \<open>logger\<close> says whether a logger was passed. In the label
  a missing URL prints as \<open>undefined\<close>.
\<close>

definition sendRequest ::
  "(retry_opts \<Rightarrow> jsval async) \<Rightarrow> ('s, 'z) sdk_scheme \<Rightarrow> request_opts \<Rightarrow> bool \<Rightarrow> jsval async"
where
  "sendRequest retry sdk opts logger s =
     retry
       \<lparr>func = doRequest sdk opts,
        initialDelayMs = 2000,
        maxAttempts = 6,
        label = ''Supervisor API ('' @ http_method opts @ '' '' @
                (case url opts of None \<Rightarrow> ''undefined'' | Some u \<Rightarrow> u) @ '')''\<rparr>
       (case url opts of
          None \<Rightarrow> s
        | Some u \<Rightarrow>
            if logger then s\<lparr>debug := debug s @ [''Sending request to '' @ u]\<rparr> else s)"

definition setTargetState ::
  "(retry_opts \<Rightarrow> jsval async) \<Rightarrow> ('s, 'z) sdk_scheme \<Rightarrow> DeviceAPI \<Rightarrow> jsval \<Rightarrow> jsval async"
where
  "setTargetState retry sdk this state =
     sendRequest retry sdk
       \<lparr>http_method = ''POST'', url = Some (getUrlForAction this SetTargetState), json = True,
        opts_body = state, qs = []\<rparr> True"

definition getTargetState ::
  "(retry_opts \<Rightarrow> jsval async) \<Rightarrow> ('s, 'z) sdk_scheme \<Rightarrow> DeviceAPI \<Rightarrow> jsval async"
where
  "getTargetState retry sdk this =
     then_do
       (sendRequest retry sdk
          \<lparr>http_method = ''GET'', url = Some (getUrlForAction this GetTargetState), json = True,
           opts_body = JUndefined, qs = []\<rparr> True)
       (\<lambda>body. read_prop body ''state'')"

definition getDeviceInformation ::
  "(retry_opts \<Rightarrow> jsval async) \<Rightarrow> ('s, 'z) sdk_scheme \<Rightarrow> DeviceAPI \<Rightarrow> jsval async"
where
  "getDeviceInformation retry sdk this =
     then_do
       (sendRequest retry sdk
          \<lparr>http_method = ''GET'', url = Some (getUrlForAction this GetDeviceInformation),
           json = True, opts_body = JUndefined, qs = []\<rparr> True)
       (\<lambda>body. read_prop body ''info'')"

definition getContainerId ::
  "(retry_opts \<Rightarrow> jsval async) \<Rightarrow> ('s, 'z) sdk_scheme \<Rightarrow> DeviceAPI \<Rightarrow> string \<Rightarrow> jsval async"
where
  "getContainerId retry sdk this serviceName =
     then_do
       (sendRequest retry sdk
          \<lparr>http_method = ''GET'', url = Some (getUrlForAction this ContainerId), json = True,
           opts_body = JUndefined, qs = [(''serviceName'', serviceName)]\<rparr> True)
       (\<lambda>body.
          and_then (read_prop body ''status'') (\<lambda>status.
            if status \<noteq> JStr ''success''
            then Inl (DeviceAPIError
                   (JStr ''Non-successful response from supervisor containerId endpoint''))
            else read_prop body ''containerId''))"

definition ping ::
  "(retry_opts \<Rightarrow> jsval async) \<Rightarrow> ('s, 'z) sdk_scheme \<Rightarrow> DeviceAPI \<Rightarrow> jsval async"
where
  "ping retry sdk this =
     sendRequest retry sdk
       \<lparr>http_method = ''GET'', url = Some (getUrlForAction this Ping), json = False,
        opts_body = JUndefined, qs = []\<rparr> True"

definition getVersion ::
  "(retry_opts \<Rightarrow> jsval async) \<Rightarrow> ('s, 'z) sdk_scheme \<Rightarrow> DeviceAPI \<Rightarrow> jsval async"
where
  "getVersion retry sdk this =
     then_do
       (sendRequest retry sdk
          \<lparr>http_method = ''GET'', url = Some (getUrlForAction this Version), json = True,
           opts_body = JUndefined, qs = []\<rparr> False)
       (\<lambda>body.
          and_then (read_prop body ''status'') (\<lambda>status.
            if status \<noteq> JStr ''success''
            then Inl (DeviceAPIError
                   (JStr ''Non-successful response from supervisor version endpoint''))
            else read_prop body ''version''))"

text \<open>
  \<open>_.omit(body, 'status')\<close>: a new object with the properties of \<open>body\<close> other than
  \<open>status\<close>, in their order. \<open>getStatus\<close> reaches it only with a body whose \<open>status\<close>
  is \<open>'success'\<close>, which is an object; for \<open>undefined\<close> and \<open>null\<close> lodash returns
  the empty object, and the other values, never reached, are given it here too.
\<close>

fun omit :: "jsval \<Rightarrow> string \<Rightarrow> jsval" where
  "omit (JObj kvs) k = JObj (filter (\<lambda>(k', v). k' \<noteq> k) kvs)"
| "omit v k = JObj []"

definition getStatus ::
  "(retry_opts \<Rightarrow> jsval async) \<Rightarrow> ('s, 'z) sdk_scheme \<Rightarrow> DeviceAPI \<Rightarrow> jsval async"
where
  "getStatus retry sdk this =
     then_do
       (sendRequest retry sdk
          \<lparr>http_method = ''GET'', url = Some (getUrlForAction this Status), json = True,
           opts_body = JUndefined, qs = []\<rparr> False)
       (\<lambda>body.
          and_then (read_prop body ''status'') (\<lambda>status.
            if status \<noteq> JStr ''success''
            then Inl (DeviceAPIError
                   (JStr ''Non-successful response from supervisor status endpoint''))
            else Inr (omit body ''status'')))"

definition getLogStream :: "('s, 'z) sdk_scheme \<Rightarrow> DeviceAPI \<Rightarrow> 's async" where
  "getLogStream sdk this s =
     (let url = getUrlForAction this Logs
      in (stream sdk url, s\<lparr>streams := streams s @ [url]\<rparr>))"

subsection \<open>Notions used to state the properties\<close>

text \<open>
  \<open>attempt sdk opts k\<close> is how the call of \<open>doRequest\<close> that sends request number \<open>k\<close>
  settles; \<open>stops r\<close> says that the retry helper, as modelled, makes no further attempt
  after one that settled as \<open>r\<close>; \<open>delays grow d n\<close> are the first \<open>n\<close> delays of a
  run that starts with delay \<open>d\<close>; \<open>last_response sdk s\<close> is how the last request
  recorded in \<open>s\<close> was answered; \<open>logged opts logger s\<close> is \<open>s\<close> after the debug line
  of \<open>sendRequest\<close>.
\<close>

definition attempt :: "('s, 'z) sdk_scheme \<Rightarrow> request_opts \<Rightarrow> nat \<Rightarrow> error + jsval" where
  "attempt sdk opts k = and_then (send sdk k opts) classify"

definition stops :: "error + jsval \<Rightarrow> bool" where
  "stops r = (case r of Inr v \<Rightarrow> True | Inl e \<Rightarrow> \<not> retryable e)"

fun delays :: "(nat \<Rightarrow> nat) \<Rightarrow> nat \<Rightarrow> nat \<Rightarrow> nat list" where
  "delays grow d 0 = []"
| "delays grow d (Suc n) = d # delays grow (grow d) n"

definition last_response :: "('s, 'z) sdk_scheme \<Rightarrow> io \<Rightarrow> error + response" where
  "last_response sdk s = send sdk (length (requests s) - 1) (last (requests s))"

definition logged :: "request_opts \<Rightarrow> bool \<Rightarrow> io \<Rightarrow> io" where
  "logged opts logger s =
     (case url opts of
        None \<Rightarrow> s
      | Some u \<Rightarrow>
          if logger then s\<lparr>debug := debug s @ [''Sending request to '' @ u]\<rparr> else s)"

text \<open>
  A device agent for the examples: request number \<open>k\<close> of an operation is answered by
  \<open>answers k\<close>, whatever its options; the logs cannot be streamed.
\<close>

definition server :: "(nat \<Rightarrow> error + response) \<Rightarrow> unit sdk" where
  "server answers =
     \<lparr>send = (\<lambda>k opts. answers k), stream = (\<lambda>u. Inl (RequestError ''no stream''))\<rparr>"

definition always :: "response \<Rightarrow> unit sdk" where
  "always resp = server (\<lambda>k. Inr resp)"

definition answering :: "response list \<Rightarrow> response \<Rightarrow> unit sdk" where
  "answering first rest =
     server (\<lambda>k. if k < length first then Inr (first ! k) else Inr rest)"

text \<open>A growth of the delay for the examples.\<close>

definition doubling :: "nat \<Rightarrow> nat" where
  "doubling d = 2 * d"

text \<open>
  \<open>retries_with operation d n\<close>: whatever the retry helper is, the operation is one call
  of it, with options whose \<open>initialDelayMs\<close> is \<open>d\<close> and whose \<open>maxAttempts\<close> is
  \<open>n\<close>, possibly after some effects of its own and followed by a callback.
\<close>

definition retries_with ::
  "((retry_opts \<Rightarrow> jsval async) \<Rightarrow> jsval async) \<Rightarrow> nat \<Rightarrow> nat \<Rightarrow> bool"
where
  "retries_with operation d n =
     (\<exists>cfg pre post. initialDelayMs cfg = d \<and> maxAttempts cfg = n \<and>
        (\<forall>retry s. operation retry s = then_do (retry cfg) post (pre s)))"

section \<open>Properties\<close>

subsection \<open>One run of the retry helper over \<open>doRequest\<close>\<close>

lemma stops_simps [simp]:
  "stops (Inr v)" "stops (Inl e) = (\<not> retryable e)"
  by (simp_all add: stops_def)

lemma delays_numeral:
  "delays grow d (numeral n) = d # delays grow (grow d) (pred_numeral n)"
  by (simp only: numeral_eq_Suc delays.simps)

lemma doRequest_attempt:
  "doRequest sdk opts s =
     (attempt sdk opts (length (requests s)), s\<lparr>requests := requests s @ [opts]\<rparr>)"
  by (simp add: doRequest_def attempt_def)

text \<open>
  A run with \<open>left\<close> retries in hand makes \<open>n + 1\<close> attempts for some \<open>n \<le> left\<close>: the
  first \<open>n\<close> fail with an error that is retried, each followed by a delay and a log
  line, and the last one is the result; the run ends before its bound only on an attempt
  that stops it.
\<close>

lemma retry_from_doRequest:
  assumes f: "func cfg = doRequest sdk opts"
  shows "\<exists>n\<le>left.
           retry_from grow cfg d left s =
             (attempt sdk opts (length (requests s) + n),
              s\<lparr>requests := requests s @ replicate (Suc n) opts,
                slept := slept s @ delays grow d n,
                retry_log := retry_log s @ replicate n (label cfg)\<rparr>)
         \<and> (\<forall>j<n. \<not> stops (attempt sdk opts (length (requests s) + j)))
         \<and> (n < left \<longrightarrow> stops (attempt sdk opts (length (requests s) + n)))"
proof (induction left arbitrary: d s)
  case 0
  show ?case by (simp add: f doRequest_attempt)
next
  case (Suc left)
  let ?k = "length (requests s)"
  show ?case
  proof (cases "stops (attempt sdk opts ?k)")
    case True
    then have "retry_from grow cfg d (Suc left) s =
        (attempt sdk opts ?k, s\<lparr>requests := requests s @ [opts]\<rparr>)"
      by (auto simp: f doRequest_attempt stops_def split: sum.splits)
    with True show ?thesis
      by (intro exI[of _ 0]) simp
  next
    case False
    then obtain e where e: "attempt sdk opts ?k = Inl e" "retryable e"
      by (auto simp: stops_def split: sum.splits)
    let ?s = "s\<lparr>requests := requests s @ [opts], slept := slept s @ [d],
                retry_log := retry_log s @ [label cfg]\<rparr>"
    have step: "retry_from grow cfg d (Suc left) s = retry_from grow cfg (grow d) left ?s"
      using e by (simp add: f doRequest_attempt)
    from Suc.IH[of "grow d" ?s] obtain n where n: "n \<le> left"
      "retry_from grow cfg (grow d) left ?s =
             (attempt sdk opts (length (requests ?s) + n),
              ?s\<lparr>requests := requests ?s @ replicate (Suc n) opts,
                slept := slept ?s @ delays grow (grow d) n,
                retry_log := retry_log ?s @ replicate n (label cfg)\<rparr>)"
      "\<forall>j<n. \<not> stops (attempt sdk opts (length (requests ?s) + j))"
      "n < left \<longrightarrow> stops (attempt sdk opts (length (requests ?s) + n))"
      by blast
    have "\<forall>j<Suc n. \<not> stops (attempt sdk opts (?k + j))"
    proof (intro allI impI)
      fix j assume "j < Suc n"
      show "\<not> stops (attempt sdk opts (?k + j))"
      proof (cases j)
        case 0 then show ?thesis using False by simp
      next
        case (Suc i)
        with \<open>j < Suc n\<close> n(3) show ?thesis by simp
      qed
    qed
    with n step show ?thesis
      by (intro exI[of _ "Suc n"]) (simp add: replicate_app_Cons_same)
  qed
qed

lemma runWithRetry_doRequest:
  assumes f: "func cfg = doRequest sdk opts"
  shows "\<exists>n. n \<le> maxAttempts cfg - 1 \<and>
           runWithRetry grow cfg s =
             (attempt sdk opts (length (requests s) + n),
              s\<lparr>requests := requests s @ replicate (Suc n) opts,
                slept := slept s @ delays grow (initialDelayMs cfg) n,
                retry_log := retry_log s @ replicate n (label cfg)\<rparr>)
         \<and> (\<forall>j<n. \<not> stops (attempt sdk opts (length (requests s) + j)))
         \<and> (n < maxAttempts cfg - 1 \<longrightarrow> stops (attempt sdk opts (length (requests s) + n)))"
  unfolding runWithRetry_def using retry_from_doRequest[OF f] by blast

lemma logged_fields [simp]:
  "requests (logged opts lg s) = requests s"
  "slept (logged opts lg s) = slept s"
  "retry_log (logged opts lg s) = retry_log s"
  "streams (logged opts lg s) = streams s"
  by (simp_all add: logged_def split: option.splits)

lemma sendRequest_logged:
  "sendRequest retry sdk opts lg s =
     retry \<lparr>func = doRequest sdk opts, initialDelayMs = 2000, maxAttempts = 6,
            label = ''Supervisor API ('' @ http_method opts @ '' '' @
                (case url opts of None \<Rightarrow> ''undefined'' | Some u \<Rightarrow> u) @ '')''\<rparr>
       (logged opts lg s)"
  by (simp add: sendRequest_def logged_def)

lemma sendRequest_run:
  "\<exists>n\<le>5. \<exists>lbl.
      sendRequest (runWithRetry grow) sdk opts lg s =
         (attempt sdk opts (length (requests s) + n),
          (logged opts lg s)\<lparr>requests := requests s @ replicate (Suc n) opts,
                slept := slept s @ delays grow 2000 n,
                retry_log := retry_log s @ replicate n lbl\<rparr>)
       \<and> (\<forall>j<n. \<not> stops (attempt sdk opts (length (requests s) + j)))
       \<and> (n < 5 \<longrightarrow> stops (attempt sdk opts (length (requests s) + n)))"
proof -
  let ?cfg = "\<lparr>func = doRequest sdk opts, initialDelayMs = 2000, maxAttempts = 6,
            label = ''Supervisor API ('' @ http_method opts @ '' '' @
                (case url opts of None \<Rightarrow> ''undefined'' | Some u \<Rightarrow> u) @ '')''\<rparr>"
  have "func ?cfg = doRequest sdk opts" by simp
  from runWithRetry_doRequest[OF this, of grow "logged opts lg s"]
  show ?thesis unfolding sendRequest_logged by simp blast
qed

text \<open>
  What \<open>sendRequest\<close> settles with is what \<open>doRequest\<close> made of the answer to the last
  request; it sends between one and six requests, all with the same options.
\<close>

lemma sendRequest_last:
  assumes "sendRequest (runWithRetry grow) sdk opts lg s = (r, s')"
  shows "r = and_then (last_response sdk s') classify"
    and "\<exists>n\<le>5. requests s' = requests s @ replicate (Suc n) opts"
    and "streams s' = streams s"
proof -
  from sendRequest_run[of grow sdk opts lg s] assms obtain n lbl where
    n: "n \<le> 5" "r = attempt sdk opts (length (requests s) + n)"
       "s' = (logged opts lg s)\<lparr>requests := requests s @ replicate (Suc n) opts,
                slept := slept s @ delays grow 2000 n,
                retry_log := retry_log s @ replicate n lbl\<rparr>"
    by auto
  show "r = and_then (last_response sdk s') classify"
    using n by (simp add: last_response_def attempt_def)
  show "\<exists>n\<le>5. requests s' = requests s @ replicate (Suc n) opts"
    using n by auto
  show "streams s' = streams s" using n by simp
qed

lemma sendRequest_first_stops:
  assumes "stops (attempt sdk opts (length (requests s)))"
  shows "sendRequest (runWithRetry grow) sdk opts lg s =
           (attempt sdk opts (length (requests s)),
            (logged opts lg s)\<lparr>requests := requests s @ [opts]\<rparr>)"
proof -
  from sendRequest_run[of grow sdk opts lg s] obtain n lbl where
    n: "sendRequest (runWithRetry grow) sdk opts lg s =
         (attempt sdk opts (length (requests s) + n),
          (logged opts lg s)\<lparr>requests := requests s @ replicate (Suc n) opts,
                slept := slept s @ delays grow 2000 n,
                retry_log := retry_log s @ replicate n lbl\<rparr>)"
       "\<forall>j<n. \<not> stops (attempt sdk opts (length (requests s) + j))"
    by blast
  have "n = 0" using n(2) assms by (cases n) auto
  with n(1) show ?thesis by simp
qed

lemma attempt_always:
  "attempt (always resp) opts k = classify resp"
  by (simp add: attempt_def always_def server_def)

lemma last_response_always:
  "last_response (always resp) s = Inr resp"
  by (simp add: last_response_def always_def server_def)

lemma retry_from_numeral:
  "retry_from grow cfg delay (numeral n) s =
     (case func cfg s of
        (Inr v, s') \<Rightarrow> (Inr v, s')
      | (Inl e, s') \<Rightarrow>
          if retryable e
          then retry_from grow cfg (grow delay) (pred_numeral n)
                 (s'\<lparr>slept := slept s' @ [delay], retry_log := retry_log s' @ [label cfg]\<rparr>)
          else (Inl e, s'))"
  by (simp only: numeral_eq_Suc retry_from.simps)

lemma then_do_sendRequest:
  assumes "then_do (sendRequest (runWithRetry grow) sdk opts lg) f s = (r, s')"
  shows "r = and_then (and_then (last_response sdk s') classify) f"
    and "\<exists>n\<le>5. requests s' = requests s @ replicate (Suc n) opts"
    and "streams s' = streams s"
proof -
  obtain r0 where r0: "sendRequest (runWithRetry grow) sdk opts lg s = (r0, s')" "r = and_then r0 f"
    using assms by (auto simp: then_do_def split: prod.splits)
  from sendRequest_last[OF r0(1)] r0(2)
  show "r = and_then (and_then (last_response sdk s') classify) f"
    and "\<exists>n\<le>5. requests s' = requests s @ replicate (Suc n) opts"
    and "streams s' = streams s"
    by simp_all
qed

lemma classify_200:
  assumes "statusCode resp = 200" and "read_prop (body resp) k = Inr v"
  shows "classify resp = Inr (body resp)"
  using assms by (cases "body resp") (simp_all add: classify_def bodyError_def)

lemma classify_Inr_cases:
  assumes "classify resp = Inr b"
  shows "(statusCode resp = 200 \<and> b = body resp) \<or> b = JUndefined"
  using assms
  by (cases "bodyError resp") (auto simp: classify_def split: if_splits)

lemma then_do_Inr: "then_do p Inr s = p s"
proof -
  have "and_then r Inr = r" for r :: "error + 'a" by (cases r) simp_all
  then show ?thesis by (simp add: then_do_def split: prod.splits)
qed


subsection \<open>The dispatcher\<close>

text \<open>
  Claim C1. The dispatcher should succeed exactly on status 200 and fail on every status
  outside 200, 400 and 503. It does not: a 404 answer makes \<open>doRequest\<close> resolve with
  \<open>undefined\<close>, and \<open>sendRequest\<close> resolves with \<open>undefined\<close> after that single
  request, for any options and any growth of the delay.
\<close>

theorem doRequest_404_resolves_undefined:
  "classify \<lparr>statusCode = 404, body = JStr ''Not Found''\<rparr> = Inr JUndefined
   \<and> fst (sendRequest (runWithRetry grow)
             (server (\<lambda>k. Inr \<lparr>statusCode = 404, body = JStr ''Not Found''\<rparr>)) opts lg io0)
       = Inr JUndefined
   \<and> length (requests (snd (sendRequest (runWithRetry grow)
             (server (\<lambda>k. Inr \<lparr>statusCode = 404, body = JStr ''Not Found''\<rparr>)) opts lg io0)))
       = 1"
proof -
  let ?sdk = "server (\<lambda>k. Inr \<lparr>statusCode = 404, body = JStr ''Not Found''\<rparr>)"
  have c: "classify \<lparr>statusCode = 404, body = JStr ''Not Found''\<rparr> = Inr JUndefined"
    by (simp add: classify_def bodyError_def)
  have a: "attempt ?sdk opts k = Inr JUndefined" for k
    by (simp add: attempt_def server_def c)
  from sendRequest_run[of grow ?sdk opts lg io0] obtain n lbl where
    n: "sendRequest (runWithRetry grow) ?sdk opts lg io0 =
         (attempt ?sdk opts (length (requests io0) + n),
          (logged opts lg io0)\<lparr>requests := requests io0 @ replicate (Suc n) opts,
                slept := slept io0 @ delays grow 2000 n,
                retry_log := retry_log io0 @ replicate n lbl\<rparr>)"
       "\<forall>j<n. \<not> stops (attempt ?sdk opts (length (requests io0) + j))"
    by blast
  have "n = 0" using n(2) a by (cases n) auto
  with n(1) a c show ?thesis by (simp add: io0_def)
qed

text \<open>
  Claim C2, as stated, fails for a body that is \<open>null\<close> (or \<open>undefined\<close>): reading
  its \<open>message\<close> throws before the status code is looked at, so a 400 or a 503 with
  such a body is a \<open>TypeError\<close>, not a BadRequest or a ServiceUnavailable error.
\<close>

theorem classify_null_body_counterexample:
  "classify \<lparr>statusCode = 400, body = JNull\<rparr> = Inl TypeError
   \<and> classify \<lparr>statusCode = 503, body = JNull\<rparr> = Inl TypeError"
  by (simp add: classify_def bodyError_def)

text \<open>
  Claim C2, amended: for every response whose body is neither \<open>undefined\<close> nor \<open>null\<close>,
  status 400 is a BadRequest error and status 503 a ServiceUnavailable error, both with
  the same message: the body itself when it is a string, its \<open>message\<close> field otherwise.
\<close>

theorem classify_400_503:
  assumes "body r \<noteq> JUndefined" and "body r \<noteq> JNull"
  shows "\<exists>m. (if is_string (body r) then m = body r
               else read_prop (body r) ''message'' = Inr m)
            \<and> (statusCode r = 400 \<longrightarrow> classify r = Inl (BadRequestDeviceAPIError m))
            \<and> (statusCode r = 503 \<longrightarrow> classify r = Inl (ServiceUnavailableAPIError m))"
  using assms by (cases "body r") (auto simp: classify_def bodyError_def)

theorem classify_400_503_witness:
  "classify \<lparr>statusCode = 400,
             body = JObj [(''status'', JStr ''failed''), (''message'', JStr ''bad state'')]\<rparr>
     = Inl (BadRequestDeviceAPIError (JStr ''bad state''))
   \<and> classify \<lparr>statusCode = 503, body = JStr ''busy''\<rparr>
     = Inl (ServiceUnavailableAPIError (JStr ''busy''))"
  using classify_400_503
          [of "\<lparr>statusCode = 400,
                body = JObj [(''status'', JStr ''failed''), (''message'', JStr ''bad state'')]\<rparr>"]
        classify_400_503 [of "\<lparr>statusCode = 503, body = JStr ''busy''\<rparr>"]
  by simp

subsection \<open>The retry helper\<close>

text \<open>
  Claim C3. An attempt that fails with a BadRequest error is never retried: at any point
  of the loop, with any delay and any number of retries in hand, and so for any
  \<open>maxAttempts\<close>, the run ends with this error in the state this attempt left, with no
  delay, no log line and no further attempt.
\<close>

theorem bad_request_not_retried:
  assumes "func cfg s = (Inl (BadRequestDeviceAPIError m), s1)"
  shows "retry_from grow cfg delay left s = (Inl (BadRequestDeviceAPIError m), s1)
       \<and> runWithRetry grow cfg s = (Inl (BadRequestDeviceAPIError m), s1)"
proof -
  have "retry_from grow cfg d l s = (Inl (BadRequestDeviceAPIError m), s1)" for d l
    using assms by (cases l) simp_all
  then show ?thesis by (simp add: runWithRetry_def)
qed

text \<open>
  The witness: \<open>ping\<close> against an agent that answers 400 sends one request and waits
  for nothing, although \<open>sendRequest\<close> allows six attempts.
\<close>

theorem bad_request_not_retried_witness:
  "ping (runWithRetry (\<lambda>d. 2 * d))
        (server (\<lambda>k. Inr \<lparr>statusCode = 400, body = JStr ''bad''\<rparr>))
        \<lparr>deviceAddress = ''http://10.0.0.2:48484/''\<rparr> io0
   = (Inl (BadRequestDeviceAPIError (JStr ''bad'')),
      \<lparr>requests = [\<lparr>http_method = ''GET'', url = Some ''http://10.0.0.2:48484/ping'',
                     json = False, opts_body = JUndefined, qs = []\<rparr>],
       streams = [], debug = [''Sending request to http://10.0.0.2:48484/ping''],
       slept = [], retry_log = []\<rparr>)"
proof -
  let ?sdk = "server (\<lambda>k. Inr \<lparr>statusCode = 400, body = JStr ''bad''\<rparr>)"
  let ?opts = "\<lparr>http_method = ''GET'', url = Some ''http://10.0.0.2:48484/ping'', json = False,
                     opts_body = JUndefined, qs = []\<rparr>"
  let ?cfg = "\<lparr>func = doRequest ?sdk ?opts, initialDelayMs = 2000, maxAttempts = 6,
          label = ''Supervisor API (GET http://10.0.0.2:48484/ping)''\<rparr>"
  let ?s = "io0\<lparr>debug := [''Sending request to http://10.0.0.2:48484/ping'']\<rparr>"
  have c: "classify \<lparr>statusCode = 400, body = JStr ''bad''\<rparr>
             = Inl (BadRequestDeviceAPIError (JStr ''bad''))"
    by (simp add: classify_def bodyError_def)
  have h: "func ?cfg ?s
             = (Inl (BadRequestDeviceAPIError (JStr ''bad'')), ?s\<lparr>requests := [?opts]\<rparr>)"
    by (simp add: doRequest_def server_def c io0_def)
  have p: "ping (runWithRetry (\<lambda>d. 2 * d)) ?sdk
             \<lparr>deviceAddress = ''http://10.0.0.2:48484/''\<rparr> io0
           = runWithRetry (\<lambda>d. 2 * d) ?cfg ?s"
    by (simp add: ping_def sendRequest_def getUrlForAction_def io0_def)
  from bad_request_not_retried[OF h, of "\<lambda>d. 2 * d"] show ?thesis
    unfolding p by (simp add: io0_def)
qed

text \<open>
  Claim C4. When every attempt fails with a ServiceUnavailable error or a transport
  error, the run makes exactly \<open>maxAttempts\<close> attempts and settles with the error of the
  last one, as that attempt produced it; and at any point of the loop an attempt that
  succeeds ends the run with its value, in the state this attempt left.
\<close>

theorem retries_exhausted:
  assumes f: "func cfg = doRequest sdk opts"
    and pos: "0 < maxAttempts cfg"
    and fail: "\<forall>j<maxAttempts cfg.
                 (\<exists>m. attempt sdk opts (length (requests s) + j)
                        = Inl (ServiceUnavailableAPIError m))
               \<or> (\<exists>t. attempt sdk opts (length (requests s) + j) = Inl (RequestError t))"
  shows "runWithRetry grow cfg s =
           (attempt sdk opts (length (requests s) + (maxAttempts cfg - 1)),
            s\<lparr>requests := requests s @ replicate (maxAttempts cfg) opts,
              slept := slept s @ delays grow (initialDelayMs cfg) (maxAttempts cfg - 1),
              retry_log := retry_log s @ replicate (maxAttempts cfg - 1) (label cfg)\<rparr>)
       \<and> (\<forall>s0 v s1 delay left.
            func cfg s0 = (Inr v, s1) \<longrightarrow> retry_from grow cfg delay left s0 = (Inr v, s1))"
proof
  from runWithRetry_doRequest[OF f, of grow s] obtain n where
    n: "n \<le> maxAttempts cfg - 1"
       "runWithRetry grow cfg s =
             (attempt sdk opts (length (requests s) + n),
              s\<lparr>requests := requests s @ replicate (Suc n) opts,
                slept := slept s @ delays grow (initialDelayMs cfg) n,
                retry_log := retry_log s @ replicate n (label cfg)\<rparr>)"
       "n < maxAttempts cfg - 1 \<longrightarrow> stops (attempt sdk opts (length (requests s) + n))"
    by blast
  have "\<not> stops (attempt sdk opts (length (requests s) + n))"
  proof -
    from n(1) pos have "n < maxAttempts cfg" by simp
    with fail show ?thesis by fastforce
  qed
  with n(1,3) have "n = maxAttempts cfg - 1" by auto
  with n(2) pos show "runWithRetry grow cfg s =
           (attempt sdk opts (length (requests s) + (maxAttempts cfg - 1)),
            s\<lparr>requests := requests s @ replicate (maxAttempts cfg) opts,
              slept := slept s @ delays grow (initialDelayMs cfg) (maxAttempts cfg - 1),
              retry_log := retry_log s @ replicate (maxAttempts cfg - 1) (label cfg)\<rparr>)"
    by simp
next
  show "\<forall>s0 v s1 delay left.
            func cfg s0 = (Inr v, s1) \<longrightarrow> retry_from grow cfg delay left s0 = (Inr v, s1)"
  proof (intro allI impI)
    fix s0 v s1 delay left
    assume "func cfg s0 = (Inr v, s1)"
    then show "retry_from grow cfg delay left s0 = (Inr v, s1)"
      by (cases left) simp_all
  qed
qed

text \<open>
  The witness: \<open>ping\<close> against an agent that always answers 503 sends six requests,
  waits five times and settles with the ServiceUnavailable error of the answer.
\<close>

theorem retries_exhausted_witness:
  "ping (runWithRetry (\<lambda>d. 2 * d))
        (server (\<lambda>k. Inr \<lparr>statusCode = 503, body = JStr ''busy''\<rparr>))
        \<lparr>deviceAddress = ''http://10.0.0.2:48484/''\<rparr> io0
   = (Inl (ServiceUnavailableAPIError (JStr ''busy'')),
      \<lparr>requests = replicate 6 \<lparr>http_method = ''GET'', url = Some ''http://10.0.0.2:48484/ping'',
                                json = False, opts_body = JUndefined, qs = []\<rparr>,
       streams = [], debug = [''Sending request to http://10.0.0.2:48484/ping''],
       slept = [2000, 4000, 8000, 16000, 32000],
       retry_log = replicate 5 ''Supervisor API (GET http://10.0.0.2:48484/ping)''\<rparr>)"
proof -
  let ?sdk = "server (\<lambda>k. Inr \<lparr>statusCode = 503, body = JStr ''busy''\<rparr>)"
  let ?opts = "\<lparr>http_method = ''GET'', url = Some ''http://10.0.0.2:48484/ping'', json = False,
                     opts_body = JUndefined, qs = []\<rparr>"
  let ?cfg = "\<lparr>func = doRequest ?sdk ?opts, initialDelayMs = 2000, maxAttempts = 6,
          label = ''Supervisor API (GET http://10.0.0.2:48484/ping)''\<rparr>"
  let ?s = "io0\<lparr>debug := [''Sending request to http://10.0.0.2:48484/ping'']\<rparr>"
  have a: "attempt ?sdk ?opts k = Inl (ServiceUnavailableAPIError (JStr ''busy''))" for k
    by (simp add: attempt_def server_def classify_def bodyError_def)
  have h1: "func ?cfg = doRequest ?sdk ?opts" by simp
  have h2: "0 < maxAttempts ?cfg" by simp
  have h3: "\<forall>j<maxAttempts ?cfg.
                 (\<exists>m. attempt ?sdk ?opts (length (requests ?s) + j)
                        = Inl (ServiceUnavailableAPIError m))
               \<or> (\<exists>t. attempt ?sdk ?opts (length (requests ?s) + j) = Inl (RequestError t))"
    unfolding a by simp
  have d: "delays (\<lambda>d. 2 * d) 2000 5 = [2000, 4000, 8000, 16000, 32000]"
    by (simp add: delays_numeral)
  have p: "ping (runWithRetry (\<lambda>d. 2 * d)) ?sdk
             \<lparr>deviceAddress = ''http://10.0.0.2:48484/''\<rparr> io0
           = runWithRetry (\<lambda>d. 2 * d) ?cfg ?s"
    by (simp add: ping_def sendRequest_def getUrlForAction_def io0_def)
  from retries_exhausted[OF h1 h2 h3, of "\<lambda>d. 2 * d", THEN conjunct1]
  have "runWithRetry (\<lambda>d. 2 * d) ?cfg ?s =
     (Inl (ServiceUnavailableAPIError (JStr ''busy'')),
      ?s\<lparr>requests := replicate 6 ?opts, slept := [2000, 4000, 8000, 16000, 32000],
         retry_log := replicate 5 ''Supervisor API (GET http://10.0.0.2:48484/ping)''\<rparr>)"
    unfolding a by (simp add: d io0_def)
  then show ?thesis unfolding p by (simp add: io0_def)
qed

subsection \<open>The operations of \<open>DeviceAPI\<close>\<close>

text \<open>
  Claim C5. Each of \<open>getContainerId\<close>, \<open>getVersion\<close> and \<open>getStatus\<close> fails with a
  \<open>DeviceAPIError\<close> when the answer it ends on has status code 200 and a body whose
  \<open>status\<close> field reads as something other than the string \<open>success\<close>.
\<close>

theorem non_success_status_is_DeviceAPIError:
  assumes resp: "last_response sdk s' = Inr resp"
    and ok: "statusCode resp = 200"
    and st: "read_prop (body resp) ''status'' = Inr status"
    and ns: "status \<noteq> JStr ''success''"
  shows "(getContainerId (runWithRetry grow) sdk this serviceName s = (r, s') \<longrightarrow>
            r = Inl (DeviceAPIError
                  (JStr ''Non-successful response from supervisor containerId endpoint'')))
       \<and> (getVersion (runWithRetry grow) sdk this s = (r, s') \<longrightarrow>
            r = Inl (DeviceAPIError
                  (JStr ''Non-successful response from supervisor version endpoint'')))
       \<and> (getStatus (runWithRetry grow) sdk this s = (r, s') \<longrightarrow>
            r = Inl (DeviceAPIError
                  (JStr ''Non-successful response from supervisor status endpoint'')))"
proof -
  have c: "and_then (last_response sdk s') classify = Inr (body resp)"
    using resp classify_200[OF ok st] by simp
  show ?thesis
    unfolding getContainerId_def getVersion_def getStatus_def
    using c st ns by (auto dest!: then_do_sendRequest(1))
qed

text \<open>
  The witness: \<open>getContainerId("main")\<close> against an agent that answers 200 with
  \<open>{status: "failed"}\<close>.
\<close>

theorem non_success_status_is_DeviceAPIError_witness:
  "getContainerId (runWithRetry doubling)
     (always \<lparr>statusCode = 200, body = JObj [(''status'', JStr ''failed'')]\<rparr>)
     \<lparr>deviceAddress = ''http://10.0.0.2:48484/''\<rparr> ''main'' io0
   = (Inl (DeviceAPIError
            (JStr ''Non-successful response from supervisor containerId endpoint'')),
      \<lparr>requests = [\<lparr>http_method = ''GET'', url = Some ''http://10.0.0.2:48484/v2/containerId'',
                     json = True, opts_body = JUndefined, qs = [(''serviceName'', ''main'')]\<rparr>],
       streams = [], debug = [''Sending request to http://10.0.0.2:48484/v2/containerId''],
       slept = [], retry_log = []\<rparr>)"
proof -
  let ?resp = "\<lparr>statusCode = 200, body = JObj [(''status'', JStr ''failed'')]\<rparr>"
  let ?api = "\<lparr>deviceAddress = ''http://10.0.0.2:48484/''\<rparr>"
  let ?s' = "\<lparr>requests = [\<lparr>http_method = ''GET'', url = Some ''http://10.0.0.2:48484/v2/containerId'',
                     json = True, opts_body = JUndefined, qs = [(''serviceName'', ''main'')]\<rparr>],
       streams = [], debug = [''Sending request to http://10.0.0.2:48484/v2/containerId''],
       slept = [], retry_log = []\<rparr>"
  have c: "classify ?resp = Inr (body ?resp)"
    by (simp add: classify_def bodyError_def)
  have st: "stops (attempt (always ?resp) opts k)" for opts k
    by (simp add: attempt_always c)
  obtain r where r: "getContainerId (runWithRetry doubling) (always ?resp) ?api ''main'' io0 = (r, ?s')"
    by (simp add: getContainerId_def then_do_def sendRequest_first_stops[OF st] logged_def
          getUrlForAction_def io0_def)
  have h1: "last_response (always ?resp) ?s' = Inr ?resp" by (rule last_response_always)
  have h2: "statusCode ?resp = 200" by simp
  have h3: "read_prop (body ?resp) ''status'' = Inr (JStr ''failed'')" by simp
  have h4: "JStr ''failed'' \<noteq> JStr ''success''" by simp
  from non_success_status_is_DeviceAPIError[OF h1 h2 h3 h4, of doubling ?api "''main''" io0 r] r
  show ?thesis by simp
qed

text \<open>
  Claim C6. \<open>setTargetState\<close> should resolve with nothing of the response body. It
  returns what \<open>sendRequest\<close> resolved with: against an agent that answers 200 with the
  body \<open>OK\<close>, \<open>setTargetState({apps: {}})\<close> resolves with \<open>OK\<close>.
\<close>

theorem setTargetState_resolves_with_body:
  "fst (setTargetState (runWithRetry doubling)
          (always \<lparr>statusCode = 200, body = JStr ''OK''\<rparr>)
          \<lparr>deviceAddress = ''http://10.0.0.2:48484/''\<rparr>
          (JObj [(''apps'', JObj [])]) io0)
   = Inr (JStr ''OK'')"
proof -
  have c: "classify \<lparr>statusCode = 200, body = JStr ''OK''\<rparr> = Inr (JStr ''OK'')"
    by (simp add: classify_def bodyError_def)
  have st: "stops (attempt (always \<lparr>statusCode = 200, body = JStr ''OK''\<rparr>) opts k)" for opts k
    by (simp add: attempt_always c)
  show ?thesis
    by (simp add: setTargetState_def sendRequest_first_stops[OF st] attempt_always c)
qed

text \<open>
  The rest of what is said of \<open>setTargetState\<close> holds: every request it sends is a POST
  of the state to the target state endpoint, there are between one and six of them, and
  it settles as \<open>doRequest\<close> did on the last answer, so that a failure is the error of the
  last attempt.
\<close>

lemma setTargetState_posts_state:
  assumes run: "setTargetState (runWithRetry grow) sdk this state s = (r, s')"
  shows "(\<exists>n\<le>5. requests s' = requests s @ replicate (Suc n)
             \<lparr>http_method = ''POST'', url = Some (deviceAddress this @ ''v2/local/target-state''),
              json = True, opts_body = state, qs = []\<rparr>)
       \<and> r = and_then (last_response sdk s') classify
       \<and> (\<forall>resp. last_response sdk s' = Inr resp \<and> statusCode resp = 200
                 \<and> body resp \<noteq> JUndefined \<and> body resp \<noteq> JNull
              \<longrightarrow> r = Inr (body resp))"
proof -
  from run have sr: "sendRequest (runWithRetry grow) sdk
       \<lparr>http_method = ''POST'', url = Some (deviceAddress this @ ''v2/local/target-state''),
        json = True, opts_body = state, qs = []\<rparr> True s = (r, s')"
    by (simp add: setTargetState_def getUrlForAction_def)
  note l = sendRequest_last[OF sr]
  have "r = Inr (body resp)"
    if "last_response sdk s' = Inr resp" "statusCode resp = 200"
       "body resp \<noteq> JUndefined" "body resp \<noteq> JNull" for resp
  proof -
    have "classify resp = Inr (body resp)"
      using that by (cases "body resp") (simp_all add: classify_def bodyError_def)
    with l(1) that(1) show ?thesis by simp
  qed
  with l(1,2) show ?thesis by blast
qed

text \<open>
  An agent that answers 503 twice and then 200: three requests, two delays.
\<close>

lemma setTargetState_busy_twice:
  "setTargetState (runWithRetry doubling)
     (answering [\<lparr>statusCode = 503, body = JStr ''busy''\<rparr>,
                 \<lparr>statusCode = 503, body = JStr ''busy''\<rparr>]
                \<lparr>statusCode = 200, body = JStr ''OK''\<rparr>)
     \<lparr>deviceAddress = ''http://10.0.0.2:48484/''\<rparr> (JObj [(''apps'', JObj [])]) io0
   = (Inr (JStr ''OK''),
      \<lparr>requests = replicate 3
         \<lparr>http_method = ''POST'', url = Some ''http://10.0.0.2:48484/v2/local/target-state'',
          json = True, opts_body = JObj [(''apps'', JObj [])], qs = []\<rparr>,
       streams = [],
       debug = [''Sending request to http://10.0.0.2:48484/v2/local/target-state''],
       slept = [2000, 4000],
       retry_log = replicate 2
         ''Supervisor API (POST http://10.0.0.2:48484/v2/local/target-state)''\<rparr>)"
proof -
  let ?sdk = "answering [\<lparr>statusCode = 503, body = JStr ''busy''\<rparr>,
                 \<lparr>statusCode = 503, body = JStr ''busy''\<rparr>]
                \<lparr>statusCode = 200, body = JStr ''OK''\<rparr>"
  let ?api = "\<lparr>deviceAddress = ''http://10.0.0.2:48484/''\<rparr>"
  let ?opts = "\<lparr>http_method = ''POST'', url = Some ''http://10.0.0.2:48484/v2/local/target-state'',
          json = True, opts_body = JObj [(''apps'', JObj [])], qs = []\<rparr>"
  let ?lbl = "''Supervisor API (POST http://10.0.0.2:48484/v2/local/target-state)''"
  let ?s' = "\<lparr>requests = [?opts, ?opts, ?opts],
       streams = [],
       debug = [''Sending request to http://10.0.0.2:48484/v2/local/target-state''],
       slept = [2000, 4000],
       retry_log = [?lbl, ?lbl]\<rparr>"
  have c1: "classify \<lparr>statusCode = 503, body = JStr ''busy''\<rparr>
              = Inl (ServiceUnavailableAPIError (JStr ''busy''))"
    and c2: "classify \<lparr>statusCode = 200, body = JStr ''OK''\<rparr> = Inr (JStr ''OK'')"
    by (simp_all add: classify_def bodyError_def)
  have s0: "send ?sdk 0 opts = Inr \<lparr>statusCode = 503, body = JStr ''busy''\<rparr>"
    and s1: "send ?sdk (Suc 0) opts = Inr \<lparr>statusCode = 503, body = JStr ''busy''\<rparr>"
    and s2: "send ?sdk (Suc (Suc 0)) opts = Inr \<lparr>statusCode = 200, body = JStr ''OK''\<rparr>" for opts
    by (simp_all add: answering_def server_def)
  obtain r where run: "setTargetState (runWithRetry doubling) ?sdk ?api (JObj [(''apps'', JObj [])]) io0 = (r, ?s')"
    by (simp add: setTargetState_def sendRequest_def getUrlForAction_def runWithRetry_def
          retry_from_numeral doRequest_def io0_def s0 s1 s2 c1 c2 doubling_def)
  have l: "last_response ?sdk ?s' = Inr \<lparr>statusCode = 200, body = JStr ''OK''\<rparr>"
    by (simp add: last_response_def answering_def server_def)
  from setTargetState_posts_state[OF run] l c2 run show ?thesis
    by (simp add: numeral_3_eq_3 numeral_2_eq_2)
qed

text \<open>
  Claim C7. \<open>getTargetState\<close> settles with the \<open>state\<close> field of the body of the
  answer it ends on: when this answer has status code 200 and its body's \<open>state\<close>
  reads as \<open>v\<close>, the call resolves with \<open>v\<close>; and a call that resolves with \<open>v\<close>
  ended on such an answer. Against an agent that always answers 200 with the body \<open>b\<close>
  the call settles as reading \<open>b.state\<close> does; against one that answers
  \<open>{state: {foo: 1}}\<close> it returns \<open>{foo: 1}\<close>.
\<close>

theorem getTargetState_returns_state_field:
  "(getTargetState (runWithRetry grow) sdk this s = (r, s') \<longrightarrow>
      (\<forall>resp v. last_response sdk s' = Inr resp \<and> statusCode resp = 200
                \<and> read_prop (body resp) ''state'' = Inr v \<longrightarrow> r = Inr v)
    \<and> (\<forall>v. r = Inr v \<longrightarrow>
          (\<exists>resp. last_response sdk s' = Inr resp \<and> statusCode resp = 200
                 \<and> read_prop (body resp) ''state'' = Inr v)))
   \<and> fst (getTargetState (runWithRetry grow) (always \<lparr>statusCode = 200, body = b\<rparr>) this s)
       = read_prop b ''state''
   \<and> fst (getTargetState (runWithRetry grow)
            (always \<lparr>statusCode = 200, body = JObj [(''state'', JObj [(''foo'', JNum 1)])]\<rparr>)
            this s)
       = Inr (JObj [(''foo'', JNum 1)])"
proof (intro conjI impI allI)
  fix resp v
  assume run: "getTargetState (runWithRetry grow) sdk this s = (r, s')"
    and a: "last_response sdk s' = Inr resp \<and> statusCode resp = 200
                \<and> read_prop (body resp) ''state'' = Inr v"
  from run have "r = and_then (and_then (last_response sdk s') classify)
                            (\<lambda>body. read_prop body ''state'')"
    unfolding getTargetState_def by (rule then_do_sendRequest(1))
  moreover have "classify resp = Inr (body resp)"
    using a classify_200[of resp "''state''" v] by simp
  ultimately show "r = Inr v" using a by simp
next
  fix v
  assume run: "getTargetState (runWithRetry grow) sdk this s = (r, s')"
    and r: "r = Inr v"
  from run have v: "r = and_then (and_then (last_response sdk s') classify)
                            (\<lambda>body. read_prop body ''state'')"
    unfolding getTargetState_def by (rule then_do_sendRequest(1))
  with r obtain resp where resp: "last_response sdk s' = Inr resp"
    by (cases "last_response sdk s'") simp_all
  with v r obtain b where b: "classify resp = Inr b" "read_prop b ''state'' = Inr v"
    by (cases "classify resp") simp_all
  from classify_Inr_cases[OF b(1)] b(2)
  have "statusCode resp = 200 \<and> b = body resp" by auto
  with resp b(2) show "\<exists>resp. last_response sdk s' = Inr resp \<and> statusCode resp = 200
             \<and> read_prop (body resp) ''state'' = Inr v" by auto
next
  have always_200: "fst (getTargetState (runWithRetry grow)
                       (always \<lparr>statusCode = 200, body = c\<rparr>) this s)
                    = read_prop c ''state''" for c
  proof -
    let ?resp = "\<lparr>statusCode = 200, body = c\<rparr>"
    obtain r1 s1 where run: "getTargetState (runWithRetry grow) (always ?resp) this s = (r1, s1)"
      by (cases "getTargetState (runWithRetry grow) (always ?resp) this s")
    then have "r1 = and_then (and_then (last_response (always ?resp) s1) classify)
                            (\<lambda>body. read_prop body ''state'')"
      unfolding getTargetState_def by (rule then_do_sendRequest(1))
    then have "r1 = and_then (classify ?resp) (\<lambda>body. read_prop body ''state'')"
      by (simp add: last_response_always)
    also have "\<dots> = read_prop c ''state''"
      by (cases c) (simp_all add: classify_def bodyError_def)
    finally show ?thesis using run by simp
  qed
  show "fst (getTargetState (runWithRetry grow) (always \<lparr>statusCode = 200, body = b\<rparr>) this s)
       = read_prop b ''state''"
    by (rule always_200)
  show "fst (getTargetState (runWithRetry grow)
            (always \<lparr>statusCode = 200, body = JObj [(''state'', JObj [(''foo'', JNum 1)])]\<rparr>)
            this s)
       = Inr (JObj [(''foo'', JNum 1)])"
    unfolding always_200 by simp
qed

text \<open>
  The witness: the call against the agent of the scenario, with its one request, and
  the answer it ends on.
\<close>

theorem getTargetState_returns_state_field_witness:
  "getTargetState (runWithRetry doubling)
     (always \<lparr>statusCode = 200, body = JObj [(''state'', JObj [(''foo'', JNum 1)])]\<rparr>)
     \<lparr>deviceAddress = ''http://10.0.0.2:48484/''\<rparr> io0
   = (Inr (JObj [(''foo'', JNum 1)]),
      \<lparr>requests = [\<lparr>http_method = ''GET'',
                     url = Some ''http://10.0.0.2:48484/v2/local/target-state'',
                     json = True, opts_body = JUndefined, qs = []\<rparr>],
       streams = [],
       debug = [''Sending request to http://10.0.0.2:48484/v2/local/target-state''],
       slept = [], retry_log = []\<rparr>)
   \<and> last_response
         (always \<lparr>statusCode = 200, body = JObj [(''state'', JObj [(''foo'', JNum 1)])]\<rparr>)
         \<lparr>requests = [\<lparr>http_method = ''GET'',
                        url = Some ''http://10.0.0.2:48484/v2/local/target-state'',
                        json = True, opts_body = JUndefined, qs = []\<rparr>],
          streams = [],
          debug = [''Sending request to http://10.0.0.2:48484/v2/local/target-state''],
          slept = [], retry_log = []\<rparr>
       = Inr \<lparr>statusCode = 200, body = JObj [(''state'', JObj [(''foo'', JNum 1)])]\<rparr>
   \<and> read_prop (JObj [(''state'', JObj [(''foo'', JNum 1)])]) ''state''
       = Inr (JObj [(''foo'', JNum 1)])"
proof -
  let ?resp = "\<lparr>statusCode = 200, body = JObj [(''state'', JObj [(''foo'', JNum 1)])]\<rparr>"
  let ?api = "\<lparr>deviceAddress = ''http://10.0.0.2:48484/''\<rparr>"
  let ?s' = "\<lparr>requests = [\<lparr>http_method = ''GET'',
                     url = Some ''http://10.0.0.2:48484/v2/local/target-state'',
                     json = True, opts_body = JUndefined, qs = []\<rparr>],
       streams = [],
       debug = [''Sending request to http://10.0.0.2:48484/v2/local/target-state''],
       slept = [], retry_log = []\<rparr>"
  have c: "classify ?resp = Inr (body ?resp)"
    by (simp add: classify_def bodyError_def)
  have st: "stops (attempt (always ?resp) opts k)" for opts k
    by (simp add: attempt_always c)
  obtain r where run: "getTargetState (runWithRetry doubling) (always ?resp) ?api io0 = (r, ?s')"
    by (simp add: getTargetState_def then_do_def sendRequest_first_stops[OF st] logged_def
          getUrlForAction_def io0_def)
  have h1: "last_response (always ?resp) ?s' = Inr ?resp" by (rule last_response_always)
  have h2: "statusCode ?resp = 200" by simp
  have h3: "read_prop (body ?resp) ''state'' = Inr (JObj [(''foo'', JNum 1)])" by simp
  from getTargetState_returns_state_field
         [of doubling "always ?resp" ?api io0 r ?s', THEN conjunct1, rule_format, OF run,
          THEN conjunct1, rule_format, of ?resp "JObj [(''foo'', JNum 1)]"]
       h1 h2 h3
  have "r = Inr (JObj [(''foo'', JNum 1)])" by blast
  with run h1 show ?thesis by simp
qed

subsection \<open>\<open>getStatus\<close> and \<open>_.omit\<close>\<close>

lemma status_success_is_object:
  assumes "read_prop b ''status'' = Inr (JStr ''success'')"
  shows "\<exists>kvs. b = JObj kvs"
  using assms by (cases b) simp_all

lemma map_of_omit:
  "map_of (filter (\<lambda>(k', v). k' \<noteq> k0) kvs) k = (if k = k0 then None else map_of kvs k)"
  by (induction kvs) auto

lemma read_prop_omit:
  "read_prop (omit (JObj kvs) k0) k =
     (if k = k0 then Inr JUndefined else read_prop (JObj kvs) k)"
  by (simp add: map_of_omit)

text \<open>
  Claim C8. When the answer \<open>getStatus\<close> ends on has status code 200 and a body whose
  \<open>status\<close> is \<open>success\<close>, the body is an object and the result is this object
  without its \<open>status\<close> property, the others in their order: every other field reads
  from the result as it reads from the body, and \<open>status\<close> reads as \<open>undefined\<close>.
\<close>

theorem getStatus_omits_only_status:
  assumes run: "getStatus (runWithRetry grow) sdk this s = (r, s')"
    and resp: "last_response sdk s' = Inr resp"
    and ok: "statusCode resp = 200"
    and st: "read_prop (body resp) ''status'' = Inr (JStr ''success'')"
  shows "\<exists>kvs. body resp = JObj kvs
            \<and> r = Inr (JObj (filter (\<lambda>(k, v). k \<noteq> ''status'') kvs))
            \<and> (\<forall>k. and_then r (\<lambda>snapshot. read_prop snapshot k) =
                     (if k = ''status'' then Inr JUndefined else read_prop (body resp) k))"
proof -
  from status_success_is_object[OF st] obtain kvs where kvs: "body resp = JObj kvs" ..
  have c: "and_then (last_response sdk s') classify = Inr (body resp)"
    using resp classify_200[OF ok st] by simp
  from run have "r = and_then (and_then (last_response sdk s') classify)
       (\<lambda>body.
          and_then (read_prop body ''status'') (\<lambda>status.
            if status \<noteq> JStr ''success''
            then Inl (DeviceAPIError
                   (JStr ''Non-successful response from supervisor status endpoint''))
            else Inr (omit body ''status'')))"
    unfolding getStatus_def by (rule then_do_sendRequest(1))
  with c st have r: "r = Inr (omit (body resp) ''status'')" by simp
  have "and_then r (\<lambda>snapshot. read_prop snapshot k) =
          (if k = ''status'' then Inr JUndefined else read_prop (body resp) k)" for k
    unfolding r kvs and_then.simps by (rule read_prop_omit)
  with r kvs show ?thesis by simp
qed

theorem getStatus_omits_only_status_witness:
  "getStatus (runWithRetry doubling)
     (always \<lparr>statusCode = 200,
              body = JObj [(''status'', JStr ''success''), (''appState'', JStr ''applied''),
                           (''overallDownloadProgress'', JNull),
                           (''containers'', JArr []), (''images'', JArr [])]\<rparr>)
     \<lparr>deviceAddress = ''http://10.0.0.2:48484/''\<rparr> io0
   = (Inr (JObj [(''appState'', JStr ''applied''), (''overallDownloadProgress'', JNull),
                 (''containers'', JArr []), (''images'', JArr [])]),
      \<lparr>requests = [\<lparr>http_method = ''GET'', url = Some ''http://10.0.0.2:48484/v2/state/status'',
                     json = True, opts_body = JUndefined, qs = []\<rparr>],
       streams = [], debug = [], slept = [], retry_log = []\<rparr>)"
proof -
  let ?resp = "\<lparr>statusCode = 200,
              body = JObj [(''status'', JStr ''success''), (''appState'', JStr ''applied''),
                           (''overallDownloadProgress'', JNull),
                           (''containers'', JArr []), (''images'', JArr [])]\<rparr>"
  let ?api = "\<lparr>deviceAddress = ''http://10.0.0.2:48484/''\<rparr>"
  let ?s' = "\<lparr>requests = [\<lparr>http_method = ''GET'', url = Some ''http://10.0.0.2:48484/v2/state/status'',
                     json = True, opts_body = JUndefined, qs = []\<rparr>],
       streams = [], debug = [], slept = [], retry_log = []\<rparr>"
  have c: "classify ?resp = Inr (body ?resp)"
    by (simp add: classify_def bodyError_def)
  have st: "stops (attempt (always ?resp) opts k)" for opts k
    by (simp add: attempt_always c)
  obtain r where run: "getStatus (runWithRetry doubling) (always ?resp) ?api io0 = (r, ?s')"
    by (simp add: getStatus_def then_do_def sendRequest_first_stops[OF st] logged_def
          getUrlForAction_def io0_def)
  have h2: "last_response (always ?resp) ?s' = Inr ?resp" by (rule last_response_always)
  have h3: "statusCode ?resp = 200" by simp
  have h4: "read_prop (body ?resp) ''status'' = Inr (JStr ''success'')" by simp
  from getStatus_omits_only_status[OF run h2 h3 h4] run show ?thesis by simp
qed

subsection \<open>The log stream\<close>

text \<open>
  Claim C9. \<open>getLogStream\<close> does not go through the retry helper, which it is not even
  given: it makes one call of \<open>sdk.request.stream\<close> for the logs endpoint and settles
  as this call does, failure included; it sends no other request and waits for nothing.
\<close>

theorem getLogStream_single_stream_request:
  "getLogStream sdk this s =
     (stream sdk (deviceAddress this @ ''v2/local/logs''),
      s\<lparr>streams := streams s @ [deviceAddress this @ ''v2/local/logs'']\<rparr>)
   \<and> requests (snd (getLogStream sdk this s)) = requests s
   \<and> slept (snd (getLogStream sdk this s)) = slept s
   \<and> retry_log (snd (getLogStream sdk this s)) = retry_log s"
  by (simp add: getLogStream_def getUrlForAction_def Let_def)

subsection \<open>The retry configuration\<close>

lemma retries_withI:
  assumes "\<And>retry s. operation retry s = then_do (sendRequest retry sdk opts lg) post s"
  shows "retries_with operation 2000 6"
  unfolding retries_with_def
  apply (rule exI[of _ "\<lparr>func = doRequest sdk opts, initialDelayMs = 2000, maxAttempts = 6,
            label = ''Supervisor API ('' @ http_method opts @ '' '' @
                (case url opts of None \<Rightarrow> ''undefined'' | Some u \<Rightarrow> u) @ '')''\<rparr>"])
  apply (rule exI[of _ "logged opts lg"])
  apply (rule exI[of _ post])
  apply (simp add: assms then_do_def sendRequest_logged)
  done

text \<open>
  Claim C10. Each of the seven operations that do not stream is one call of the retry
  helper with \<open>initialDelayMs = 2000\<close> and \<open>maxAttempts = 6\<close>, whatever the helper,
  the SDK, the address and the arguments of the operation: no argument reaches the
  delay or the bound.
\<close>

theorem retry_configuration_hard_coded:
  "retries_with (\<lambda>retry. setTargetState retry sdk this state) 2000 6
   \<and> retries_with (\<lambda>retry. getTargetState retry sdk this) 2000 6
   \<and> retries_with (\<lambda>retry. getDeviceInformation retry sdk this) 2000 6
   \<and> retries_with (\<lambda>retry. getContainerId retry sdk this serviceName) 2000 6
   \<and> retries_with (\<lambda>retry. ping retry sdk this) 2000 6
   \<and> retries_with (\<lambda>retry. getVersion retry sdk this) 2000 6
   \<and> retries_with (\<lambda>retry. getStatus retry sdk this) 2000 6"
proof (intro conjI)
  show "retries_with (\<lambda>retry. setTargetState retry sdk this state) 2000 6"
    by (rule retries_withI[where post = Inr]) (simp add: setTargetState_def then_do_Inr)
  show "retries_with (\<lambda>retry. getTargetState retry sdk this) 2000 6"
    by (rule retries_withI) (simp add: getTargetState_def)
  show "retries_with (\<lambda>retry. getDeviceInformation retry sdk this) 2000 6"
    by (rule retries_withI) (simp add: getDeviceInformation_def)
  show "retries_with (\<lambda>retry. getContainerId retry sdk this serviceName) 2000 6"
    by (rule retries_withI) (simp add: getContainerId_def)
  show "retries_with (\<lambda>retry. ping retry sdk this) 2000 6"
    by (rule retries_withI[where post = Inr]) (simp add: ping_def then_do_Inr)
  show "retries_with (\<lambda>retry. getVersion retry sdk this) 2000 6"
    by (rule retries_withI) (simp add: getVersion_def)
  show "retries_with (\<lambda>retry. getStatus retry sdk this) 2000 6"
    by (rule retries_withI) (simp add: getStatus_def)
qed

end
